theory Spec2Isabelle
  imports Complex_Main "HOL-Library.Word"
begin

section \<open>Python and NumPy primitives used by \<open>beebo_prototype.py\<close>\<close>

text \<open>
  Wall-clock readings (\<open>time.time()\<close>), the gain multiplier and the volume samples are
  Python floats. They are modelled as \<open>real\<close>: every reading of the clock is an argument
  of the operation that takes it, and arithmetic on them is exact. Where NumPy computes in
  single precision the rounding is a parameter of the model (see \<open>apply_software_gain\<close>).
\<close>

text \<open>\<open>int(x)\<close> on a float: truncation toward zero.\<close>

definition py_int :: "real \<Rightarrow> int" where
  "py_int x = (if x < 0 then \<lceil>x\<rceil> else \<lfloor>x\<rfloor>)"



text \<open>
  Strings are byte strings. \<open>str.split()\<close> and \<open>str.strip()\<close> cut at the ASCII white
  space characters (tab, line feed, vertical tab, form feed, carriage return, the four
  separators \<open>0x1C\<close> to \<open>0x1F\<close>, and space); \<open>str.lower()\<close> maps \<open>A\<close> to \<open>Z\<close>.
\<close>

definition is_space :: "char \<Rightarrow> bool" where
  "is_space c = (let n = of_char c :: nat in (9 \<le> n \<and> n \<le> 13) \<or> (28 \<le> n \<and> n \<le> 32))"

fun split_acc :: "string \<Rightarrow> string \<Rightarrow> string list" where
  "split_acc w [] = (if w = [] then [] else [rev w])"
| "split_acc w (c # cs) =
     (if is_space c then (if w = [] then split_acc [] cs else rev w # split_acc [] cs)
      else split_acc (c # w) cs)"

definition py_split :: "string \<Rightarrow> string list" where
  "py_split s = split_acc [] s"

definition py_strip :: "string \<Rightarrow> string" where
  "py_strip s = rev (dropWhile is_space (rev (dropWhile is_space s)))"

definition lower_char :: "char \<Rightarrow> char" where
  "lower_char c =
     (let n = of_char c :: nat in if 65 \<le> n \<and> n \<le> 90 then char_of (n + 32) else c)"

definition py_lower :: "string \<Rightarrow> string" where
  "py_lower s = map lower_char s"

text \<open>\<open>needle in text\<close> on strings: a contiguous occurrence.\<close>

fun starts_with :: "string \<Rightarrow> string \<Rightarrow> bool" where
  "starts_with [] ys = True"
| "starts_with (x # xs) [] = False"
| "starts_with (x # xs) (y # ys) = (x = y \<and> starts_with xs ys)"

fun contains :: "string \<Rightarrow> string \<Rightarrow> bool" where
  "contains needle [] = (needle = [])"
| "contains needle (c # cs) = (starts_with needle (c # cs) \<or> contains needle cs)"

section \<open>Software gain (\<open>apply_software_gain\<close>)\<close>

text \<open>
  \<open>np.frombuffer(audio_data, dtype=np.int16)\<close> reads the frame as 16-bit signed samples,
  so a frame is a list of \<open>16 word\<close> read by \<open>sint\<close>. \<open>.astype(np.float32)\<close> is exact on
  them. The product \<open>audio_array * gain_multiplier\<close> is a single-precision product: the
  multiplier is converted to \<open>float32\<close> and the product is rounded to \<open>float32\<close>. That
  rounding is the parameter \<open>f32\<close>; nothing is assumed about it. \<open>np.clip\<close> bounds the
  product, and \<open>.astype(np.int16)\<close> truncates it toward zero.
\<close>

type_synonym int16 = "16 word"

definition np_clip :: "real \<Rightarrow> real \<Rightarrow> real \<Rightarrow> real" where
  "np_clip x lo hi = min (max x lo) hi"

definition astype_int16 :: "real \<Rightarrow> int16" where
  "astype_int16 x = word_of_int (py_int x)"

definition apply_software_gain :: "(real \<Rightarrow> real) \<Rightarrow> int16 list \<Rightarrow> real \<Rightarrow> int16 list" where
  "apply_software_gain f32 audio_data gain_multiplier =
     (let audio_array = map (\<lambda>w. real_of_int (sint w)) audio_data;
          amplified = map (\<lambda>x. f32 (x * f32 gain_multiplier)) audio_array;
          clipped = map (\<lambda>x. np_clip x (- 32768) 32767) amplified
      in map astype_int16 clipped)"

section \<open>Volume colour (\<open>apply_volume_color\<close>)\<close>

type_synonym rgb = "int \<times> int \<times> int"
type_synonym pixel = "int \<times> int \<times> int \<times> int"

definition base_color :: rgb where
  "base_color = (99, 155, 255)"

definition peak_color :: rgb where
  "peak_color = (95, 205, 220)"

definition target_color :: "real \<Rightarrow> rgb" where
  "target_color volume_level =
     (case (base_color, peak_color) of ((b0, b1, b2), (p0, p1, p2)) \<Rightarrow>
        (py_int (real_of_int b0 + real_of_int (p0 - b0) * volume_level),
         py_int (real_of_int b1 + real_of_int (p1 - b1) * volume_level),
         py_int (real_of_int b2 + real_of_int (p2 - b2) * volume_level)))"

definition red :: "rgb \<Rightarrow> int" where
  "red c = fst c"

definition green :: "rgb \<Rightarrow> int" where
  "green c = fst (snd c)"

definition blue :: "rgb \<Rightarrow> int" where
  "blue c = snd (snd c)"



section \<open>The state of \<open>BeeboPrototype\<close>\<close>

text \<open>
  The class is one record; only the attributes that the modelled methods read or write
  are fields. The states and modes are the strings the source compares against. Leading
  underscores of method names are dropped. Logging, the Tk variables behind the control
  panel and the diagnostic audio recording have no field.
\<close>

datatype sys_state = SLEEPING | WAKING_UP | STANDBY | LISTENING | PROCESSING | SPEAKING | ERROR

datatype voice_mode_t = Voice_off | Voice_wake_word | Voice_listening

datatype phase = Transition_to_speak | Phase_speaking | Transition_to_standby

text \<open>
  A callback handed to Tk (\<open>root.after(delay, f)\<close>, \<open>face_window.after(delay, f)\<close>) is
  queued with its delay in milliseconds; the Tk loop runs it later. The callback
  \<open>Cb_process_voice_input\<close> reads \<open>current_input_text\<close> when it runs, as the lambda of the
  source does.
\<close>

datatype callback =
    Cb_set_state sys_state
  | Cb_process_voice_input
  | Cb_power_on
  | Cb_state_var_set sys_state
  | Cb_speak string
  | Cb_update_speaking_colors

datatype thread = Voice_thread | Speak_thread string | Ai_thread string

text \<open>
  A PyAudio input stream. Its \<open>stop_stream()\<close> and \<open>close()\<close> calls can raise (PortAudio
  errors). What each teardown attempt on the handle meets is an input of the model: the
  handle carries the outcomes of the attempts still to come, one per attempt, and an
  attempt with no outcome listed succeeds.
\<close>

datatype teardown_outcome = Stop_raises | Close_raises | Closes

record stream =
  running :: bool
  teardown :: "teardown_outcome list"

datatype recognizer = KaldiRecognizer

record entry =
  timestamp :: string
  role :: string
  content :: string

datatype canvas =
    Canvas_other
  | Speaking_face_base "pixel list list"
  | Speaking_face_colored "pixel list list"

record beebo =
  current_state :: sys_state
  previous_state :: sys_state
  wake_word_active :: bool
  voice_thread_running :: bool
  voice_mode :: voice_mode_t
  should_listen_after_wake :: bool
  vosk_rec :: "recognizer option"
  audio_stream :: "stream option"
  current_input_text :: string
  last_word_time :: real
  word_timeout :: real
  listening_start_time :: real
  initial_timeout :: real
  has_detected_speech :: bool
  wake_word_detected_time :: real
  wake_word_cooldown :: real
  context_memory :: "entry list"
  max_context_history :: nat
  pending_volume_timeline :: "real list option"
  tts_start_time :: "real option"
  last_activity_time :: real
  color_animation_active :: bool
  color_start_time :: real
  volume_timeline :: "real list"
  speaking_phase :: "phase option"
  is_speaking :: bool
  return_to_listening_after_speak :: bool
  config_wake_word :: "string option"
  config_openai_api_key :: "string option"
  speaking_face_png :: "pixel list list"
  face_canvas :: canvas
  current_gif :: "string option"
  after_queue :: "(nat \<times> callback) list"
  threads :: "thread list"

text \<open>The attribute values set by \<open>__init__\<close>, before the set-up calls.\<close>

definition init_state :: "real \<Rightarrow> pixel list list \<Rightarrow> beebo" where
  "init_state now png =
     \<lparr> current_state = SLEEPING, previous_state = SLEEPING, wake_word_active = False,
       voice_thread_running = False, voice_mode = Voice_off, should_listen_after_wake = False,
       vosk_rec = None, audio_stream = None, current_input_text = [], last_word_time = 0,
       word_timeout = 1, listening_start_time = 0, initial_timeout = 5,
       has_detected_speech = False, wake_word_detected_time = 0, wake_word_cooldown = 2,
       context_memory = [], max_context_history = 15, pending_volume_timeline = None,
       tts_start_time = None,
       last_activity_time = now, color_animation_active = False, color_start_time = 0,
       volume_timeline = [], speaking_phase = None, is_speaking = False,
       return_to_listening_after_speak = False, config_wake_word = Some ''beebo'',
       config_openai_api_key = Some [], speaking_face_png = png, face_canvas = Canvas_other,
       current_gif = None, after_queue = [], threads = [] \<rparr>"

definition post :: "nat \<Rightarrow> callback \<Rightarrow> beebo \<Rightarrow> beebo" where
  "post delay cb s = s\<lparr>after_queue := after_queue s @ [(delay, cb)]\<rparr>"

section \<open>Audio session (\<open>create_fresh_vosk_session\<close>, \<open>destroy_vosk_session\<close>)\<close>

text \<open>
  \<open>destroy_vosk_session\<close> runs inside \<open>try\<close>: when \<open>stop_stream()\<close> or \<open>close()\<close> raises,
  the \<open>except\<close> clause logs the error and the assignments after the raising call are not
  reached. A stream whose \<open>stop_stream()\<close> succeeded is no longer running.
\<close>

definition destroy_vosk_session :: "beebo \<Rightarrow> beebo" where
  "destroy_vosk_session s =
     (case audio_stream s of
        None \<Rightarrow> s\<lparr>vosk_rec := None\<rparr>
      | Some h \<Rightarrow>
          (case teardown h of
             Stop_raises # later \<Rightarrow> s\<lparr>audio_stream := Some (h\<lparr>teardown := later\<rparr>)\<rparr>
           | Close_raises # later \<Rightarrow>
               s\<lparr>audio_stream := Some (h\<lparr>running := False, teardown := later\<rparr>)\<rparr>
           | Closes # later \<Rightarrow> s\<lparr>audio_stream := None, vosk_rec := None\<rparr>
           | [] \<Rightarrow> s\<lparr>audio_stream := None, vosk_rec := None\<rparr>))"

text \<open>What creating the recogniser and opening the microphone did.\<close>

datatype open_outcome = Recognizer_raises | Open_raises | Opened stream

definition create_fresh_vosk_session :: "beebo \<Rightarrow> open_outcome \<Rightarrow> beebo \<times> bool" where
  "create_fresh_vosk_session s outcome =
     (let s1 = destroy_vosk_session s in
      case outcome of
        Recognizer_raises \<Rightarrow> (s1, False)
      | Open_raises \<Rightarrow> (s1\<lparr>vosk_rec := Some KaldiRecognizer\<rparr>, False)
      | Opened h \<Rightarrow> (s1\<lparr>vosk_rec := Some KaldiRecognizer, audio_stream := Some h\<rparr>, True))"

section \<open>State management\<close>

definition start_voice_thread :: "beebo \<Rightarrow> beebo" where
  "start_voice_thread s =
     (if \<not> voice_thread_running s
      then s\<lparr>voice_thread_running := True, threads := threads s @ [Voice_thread]\<rparr>
      else s)"

definition stop_voice_system :: "beebo \<Rightarrow> beebo" where
  "stop_voice_system s = destroy_vosk_session (s\<lparr>voice_mode := Voice_off\<rparr>)"

definition set_voice_mode :: "beebo \<Rightarrow> voice_mode_t \<Rightarrow> beebo" where
  "set_voice_mode s mode =
     (let s1 = s\<lparr>voice_mode := mode\<rparr> in
      if mode \<noteq> Voice_off \<and> \<not> voice_thread_running s1 then start_voice_thread s1 else s1)"

definition set_state :: "beebo \<Rightarrow> sys_state \<Rightarrow> real \<Rightarrow> beebo" where
  "set_state s new_state now =
     (if new_state \<noteq> current_state s then
        let s1 = s\<lparr>previous_state := current_state s, current_state := new_state\<rparr>;
            s2 = (if new_state \<in> {WAKING_UP, LISTENING, SPEAKING}
                  then s1\<lparr>last_activity_time := now\<rparr> else s1)
        in if new_state = SLEEPING then
             (if wake_word_active s2 then set_voice_mode s2 Voice_wake_word
              else stop_voice_system s2)
           else if new_state = STANDBY \<and> wake_word_active s2 then
             set_voice_mode s2 Voice_wake_word
           else if new_state = LISTENING then set_voice_mode s2 Voice_listening
           else if new_state \<in> {PROCESSING, SPEAKING} then set_voice_mode s2 Voice_off
           else s2
      else s)"

definition power_on :: "beebo \<Rightarrow> real \<Rightarrow> beebo" where
  "power_on s now = (if current_state s = SLEEPING then set_state s WAKING_UP now else s)"

definition toggle_wake_word :: "beebo \<Rightarrow> bool \<Rightarrow> beebo" where
  "toggle_wake_word s var =
     (let s1 = s\<lparr>wake_word_active := var\<rparr> in
      if wake_word_active s1 then
        (if current_state s1 \<in> {SLEEPING, STANDBY} then set_voice_mode s1 Voice_wake_word
         else if current_state s1 = LISTENING then set_voice_mode s1 Voice_listening
         else s1)
      else (if voice_mode s1 = Voice_wake_word then stop_voice_system s1 else s1))"

definition on_wake_animation_complete :: "beebo \<Rightarrow> real \<Rightarrow> beebo" where
  "on_wake_animation_complete s now =
     (if should_listen_after_wake s then
        post 0 (Cb_state_var_set LISTENING)
          (s\<lparr>should_listen_after_wake := False, current_state := LISTENING,
             voice_mode := Voice_listening\<rparr>)
      else set_state s STANDBY now)"

definition start_manual_listening :: "beebo \<Rightarrow> real \<Rightarrow> beebo" where
  "start_manual_listening s now =
     (if current_state s = SLEEPING then s
      else if is_speaking s then s
      else set_state s LISTENING now)"

definition stop_listening :: "beebo \<Rightarrow> real \<Rightarrow> beebo" where
  "stop_listening s now =
     (if current_state s \<in> {LISTENING, PROCESSING}
      then set_state (destroy_vosk_session s) STANDBY now else s)"

section \<open>Wake word (\<open>_check_wake_word\<close>, \<open>_trigger_wake_response\<close>)\<close>

definition trigger_wake_response :: "beebo \<Rightarrow> beebo" where
  "trigger_wake_response s =
     (if current_state s = SLEEPING then
        post 0 Cb_power_on (s\<lparr>should_listen_after_wake := True\<rparr>)
      else if current_state s = STANDBY then
        post 0 (Cb_state_var_set LISTENING)
          (s\<lparr>current_state := LISTENING, voice_mode := Voice_listening\<rparr>)
      else s)"

definition check_wake_word :: "beebo \<Rightarrow> string \<Rightarrow> real \<Rightarrow> beebo \<times> bool" where
  "check_wake_word s text current_time =
     (let wake_word = py_lower (case config_wake_word s of None \<Rightarrow> ''beebo'' | Some w \<Rightarrow> w) in
      if contains wake_word text then
        if current_time - wake_word_detected_time s < wake_word_cooldown s then (s, False)
        else (trigger_wake_response (s\<lparr>wake_word_detected_time := current_time\<rparr>), True)
      else (s, False))"

section \<open>Endpointing (\<open>_handle_speech_recognition\<close> and its helpers)\<close>

definition process_partial_speech :: "beebo \<Rightarrow> string \<Rightarrow> real \<Rightarrow> beebo" where
  "process_partial_speech s partial_text current_time =
     (if partial_text \<noteq> [] then
        let s1 = (if \<not> has_detected_speech s then s\<lparr>has_detected_speech := True\<rparr> else s);
            words = py_split partial_text;
            current_words = py_split (current_input_text s1)
        in if length words > length current_words
           then s1\<lparr>current_input_text := partial_text, last_word_time := current_time\<rparr>
           else s1
      else s)"

definition process_final_speech :: "beebo \<Rightarrow> string \<Rightarrow> beebo" where
  "process_final_speech s final_text =
     (if final_text \<noteq> [] then
        let s1 = (if length (py_split final_text) > length (py_split (current_input_text s))
                  then s\<lparr>current_input_text := final_text\<rparr> else s)
        in post 0 Cb_process_voice_input (post 0 (Cb_set_state PROCESSING) s1)
      else post 0 (Cb_set_state STANDBY) s)"

definition check_speech_timeouts :: "beebo \<Rightarrow> real \<Rightarrow> beebo \<times> bool" where
  "check_speech_timeouts s current_time =
     (if \<not> has_detected_speech s then
        if current_time - listening_start_time s > initial_timeout s
        then (post 0 (Cb_set_state STANDBY) s, True)
        else (s, False)
      else
        if current_time - last_word_time s > word_timeout s then
          if py_strip (current_input_text s) \<noteq> []
          then (post 0 Cb_process_voice_input (post 0 (Cb_set_state PROCESSING) s), True)
          else (post 0 (Cb_set_state STANDBY) s, True)
        else (s, False))"

text \<open>
  One pass of the listening loop reads a frame and asks the recogniser. What comes back
  is the input of the model: a final result with its text, a partial result with its
  text, or an exception raised by the read or the recogniser. Each pass comes with the
  clock reading taken at its top.
\<close>

datatype frame = Final_result string | Partial_result string | Read_error

text \<open>The loop body; the flag says whether the pass ended in \<open>break\<close>.\<close>

definition listen_pass :: "beebo \<Rightarrow> real \<Rightarrow> frame \<Rightarrow> beebo \<times> bool" where
  "listen_pass s current_time fr =
     (case fr of
        Final_result txt \<Rightarrow>
          (let final_text = py_strip txt in
           if final_text \<noteq> [] then (process_final_speech s final_text, True)
           else check_speech_timeouts s current_time)
      | Partial_result txt \<Rightarrow>
          (let partial_text = py_strip txt;
               s1 = (if partial_text \<noteq> []
                     then process_partial_speech s partial_text current_time else s)
           in check_speech_timeouts s1 current_time)
      | Read_error \<Rightarrow> check_speech_timeouts s current_time)"

text \<open>
  The loop over the passes that the microphone delivers. The result is \<open>None\<close> when the
  passes run out with the loop still going, and the final state when the loop has ended.
\<close>

fun listen_loop :: "beebo \<Rightarrow> (real \<times> frame) list \<Rightarrow> beebo option" where
  "listen_loop s [] = (if current_state s \<noteq> LISTENING then Some s else None)"
| "listen_loop s (p # ps) =
     (if current_state s \<noteq> LISTENING then Some s
      else (case listen_pass s (fst p) (snd p) of
              (s1, True) \<Rightarrow> Some s1
            | (s1, False) \<Rightarrow> listen_loop s1 ps))"

text \<open>
  \<open>t_start\<close> and \<open>t_word\<close> are the two clock readings of the initialisation. The
  \<open>finally\<close> clause destroys the session on every way out.
\<close>

definition handle_speech_recognition ::
  "beebo \<Rightarrow> open_outcome \<Rightarrow> real \<Rightarrow> real \<Rightarrow> (real \<times> frame) list \<Rightarrow> beebo option" where
  "handle_speech_recognition s outcome t_start t_word passes =
     (if current_state s \<noteq> LISTENING then Some (destroy_vosk_session s)
      else case create_fresh_vosk_session s outcome of
        (s1, False) \<Rightarrow> Some (destroy_vosk_session (post 0 (Cb_set_state STANDBY) s1))
      | (s1, True) \<Rightarrow>
          (let s2 = s1\<lparr>current_input_text := [], has_detected_speech := False,
                       listening_start_time := t_start, last_word_time := t_word\<rparr>
           in map_option destroy_vosk_session (listen_loop s2 passes)))"

text \<open>
  The branch of \<open>_voice_thread\<close> taken in listening mode: after the recognition call
  returns, the mode is set to wake-word mode.
\<close>

definition voice_thread_listening ::
  "beebo \<Rightarrow> open_outcome \<Rightarrow> real \<Rightarrow> real \<Rightarrow> (real \<times> frame) list \<Rightarrow> beebo option" where
  "voice_thread_listening s outcome t_start t_word passes =
     map_option (\<lambda>s1. s1\<lparr>voice_mode := Voice_wake_word\<rparr>)
       (handle_speech_recognition s outcome t_start t_word passes)"

text \<open>
  The utterance handed to \<open>process_voice_input\<close> once the queued callback runs: the
  text accumulated when a \<open>Cb_process_voice_input\<close> is in the queue.
\<close>

definition submitted_utterance :: "beebo \<Rightarrow> string option" where
  "submitted_utterance s =
     (if (0, Cb_process_voice_input) \<in> set (after_queue s)
      then Some (current_input_text s) else None)"

section \<open>Speaking (\<open>speak\<close>, \<open>speak_and_return_to_listening\<close>)\<close>

definition speak :: "beebo \<Rightarrow> string \<Rightarrow> real \<Rightarrow> beebo" where
  "speak s text now =
     (if is_speaking s then s
      else
        let s1 = s\<lparr>is_speaking := True, speaking_phase := Some Transition_to_speak,
                    return_to_listening_after_speak := False\<rparr>;
            s2 = set_state s1 SPEAKING now
        in s2\<lparr>threads := threads s2 @ [Speak_thread text]\<rparr>)"

definition speak_and_return_to_listening :: "beebo \<Rightarrow> string \<Rightarrow> real \<Rightarrow> beebo" where
  "speak_and_return_to_listening s text now =
     (if is_speaking s then s
      else
        let s1 = s\<lparr>is_speaking := True, speaking_phase := Some Transition_to_speak,
                    return_to_listening_after_speak := True\<rparr>;
            s2 = set_state s1 SPEAKING now
        in s2\<lparr>threads := threads s2 @ [Speak_thread text]\<rparr>)"

section \<open>Response pipeline (\<open>_process_ai_background\<close>, \<open>add_to_context\<close>)\<close>

definition add_to_context :: "beebo \<Rightarrow> string \<Rightarrow> string \<Rightarrow> string \<Rightarrow> beebo" where
  "add_to_context s content' role' timestamp' =
     (let e = \<lparr>timestamp = timestamp', role = role', content = content'\<rparr>;
          mem = context_memory s @ [e]
      in if length mem > max_context_history s
         then s\<lparr>context_memory := tl mem\<rparr>
         else s\<lparr>context_memory := mem\<rparr>)"

text \<open>
  The calls to the language-model service are external: what each returned, or that it
  raised, is an input. The prompt built from the context is read by the service only.
\<close>

datatype api = Api_raises | Api_reply string

definition api_key_of :: "beebo \<Rightarrow> string" where
  "api_key_of s = py_strip (case config_openai_api_key s of None \<Rightarrow> [] | Some k \<Rightarrow> k)"

definition truncated :: "string \<Rightarrow> string" where
  "truncated m = (if length m > 100 then take 100 m @ ''...'' else m)"

definition summarize_message :: "beebo \<Rightarrow> string \<Rightarrow> api \<Rightarrow> string" where
  "summarize_message s message_content reply =
     (if api_key_of s = [] then truncated message_content
      else case reply of
        Api_reply r \<Rightarrow> py_strip r
      | Api_raises \<Rightarrow> truncated message_content)"

definition summarize_bot_response :: "beebo \<Rightarrow> string \<Rightarrow> api \<Rightarrow> string" where
  "summarize_bot_response s response_content reply =
     (if length (py_split response_content) > 30 then
        (if api_key_of s = [] then truncated response_content
         else case reply of
           Api_reply r \<Rightarrow> py_strip r
         | Api_raises \<Rightarrow> truncated response_content)
      else response_content)"

definition apology :: string where
  "apology = ''Sorry, I'm having trouble processing that request right now''"

record replies =
  user_timestamp :: string
  bot_timestamp :: string
  user_summary :: api
  chat_completion :: api
  bot_summary :: api

definition process_ai_background :: "beebo \<Rightarrow> string \<Rightarrow> replies \<Rightarrow> beebo" where
  "process_ai_background s text env =
     (if api_key_of s = [] then post 0 (Cb_speak ''API key not configured'') s
      else
        let cleaned_message = py_strip text;
            s1 = (if length (py_split cleaned_message) > 20
                  then add_to_context s
                         (summarize_message s cleaned_message (user_summary env))
                         ''user'' (user_timestamp env)
                  else add_to_context s cleaned_message ''user'' (user_timestamp env))
        in case chat_completion env of
             Api_raises \<Rightarrow> post 0 (Cb_speak apology) s1
           | Api_reply bot_response \<Rightarrow>
               (let s2 = post 0 (Cb_speak bot_response) s1;
                    summarized_response = summarize_bot_response s2 bot_response (bot_summary env)
                in add_to_context s2 summarized_response ''bot'' (bot_timestamp env)))"

section \<open>Playback synchronisation\<close>







section \<open>Concrete states for the examples\<close>

text \<open>A freshly constructed object that has a recogniser and the open stream \<open>h\<close>.\<close>

definition open_session :: "stream \<Rightarrow> beebo" where
  "open_session h = (init_state 0 [])\<lparr>vosk_rec := Some KaldiRecognizer, audio_stream := Some h\<rparr>"

text \<open>An object with an API key configured, and a service whose every call raises.\<close>

definition keyed_state :: beebo where
  "keyed_state = (init_state 0 [])\<lparr>config_openai_api_key := Some ''sk-test''\<rparr>"

definition failing_replies :: replies where
  "failing_replies =
     \<lparr>user_timestamp = ''12:00:00'', bot_timestamp = ''12:00:01'',
      user_summary = Api_raises, chat_completion = Api_raises, bot_summary = Api_raises\<rparr>"

text \<open>
  The way to a listening session with wake-word detection left disabled: power on, the
  wake animation completes, manual listening starts at time 3.
\<close>

definition standby_state :: beebo where
  "standby_state = on_wake_animation_complete (power_on (init_state 0 []) 1) 2"

definition listening_state :: beebo where
  "listening_state = start_manual_listening standby_state 3"

definition good_stream :: stream where
  "good_stream = \<lparr>running = True, teardown = []\<rparr>"

text \<open>A stream whose first teardown attempt meets a raising \<open>stop_stream()\<close>.\<close>

definition faulty_stream :: stream where
  "faulty_stream = \<lparr>running = True, teardown = [Stop_raises]\<rparr>"




section \<open>Notions used by the statements\<close>

text \<open>A pass that brings no speech: an empty final or partial text, or a failed read.\<close>

definition silent :: "frame \<Rightarrow> bool" where
  "silent fr =
     (case fr of
        Final_result txt \<Rightarrow> py_strip txt = []
      | Partial_result txt \<Rightarrow> py_strip txt = []
      | Read_error \<Rightarrow> True)"

text \<open>
  A pass that brings no new word once speech has been detected: no final text, a partial
  text with no more words than the accumulated text, or a failed read.
\<close>

definition no_new_word :: "beebo \<Rightarrow> frame \<Rightarrow> bool" where
  "no_new_word s fr =
     (case fr of
        Final_result txt \<Rightarrow> py_strip txt = []
      | Partial_result txt \<Rightarrow>
          length (py_split (py_strip txt)) \<le> length (py_split (current_input_text s))
      | Read_error \<Rightarrow> True)"

text \<open>
  An object with a key whose earlier reply is still being spoken (\<open>speak\<close> at time 1).
\<close>

definition keyed_speaking_state :: beebo where
  "keyed_speaking_state = speak keyed_state ''an earlier reply'' 1"

text \<open>The relation between the system state and the voice mode that the data model states.\<close>

definition voice_inv :: "beebo \<Rightarrow> bool" where
  "voice_inv s =
     ((current_state s \<in> {PROCESSING, SPEAKING} \<longrightarrow> voice_mode s = Voice_off)
      \<and> (voice_mode s = Voice_listening \<longleftrightarrow> current_state s = LISTENING)
      \<and> (voice_mode s = Voice_wake_word
           \<longrightarrow> current_state s \<in> {SLEEPING, STANDBY} \<and> wake_word_active s))"

section \<open>Properties\<close>

lemma py_int_mono: "x \<le> y \<Longrightarrow> py_int x \<le> py_int y"
proof -
  assume le: "x \<le> y"
  show ?thesis
  proof (cases "x < 0")
    case xneg: True
    show ?thesis
    proof (cases "y < 0")
      case True
      with xneg le show ?thesis by (simp add: py_int_def ceiling_mono)
    next
      case False
      from xneg have "\<lceil>x\<rceil> \<le> 0" by simp
      moreover from False have "0 \<le> \<lfloor>y\<rfloor>" by simp
      moreover have "py_int x = \<lceil>x\<rceil>" "py_int y = \<lfloor>y\<rfloor>"
        using xneg False by (simp_all add: py_int_def)
      ultimately show ?thesis by linarith
    qed
  next
    case False
    with le have "\<not> y < 0" by simp
    with False le show ?thesis by (simp add: py_int_def floor_mono)
  qed
qed

lemma py_int_of_int: "py_int (real_of_int n) = n"
  by (simp add: py_int_def)

lemma py_int_bounds: "real_of_int a \<le> x \<Longrightarrow> x \<le> real_of_int b \<Longrightarrow> a \<le> py_int x \<and> py_int x \<le> b"
  using py_int_mono [of "real_of_int a" x] py_int_mono [of x "real_of_int b"]
  by (simp add: py_int_of_int)

subsection \<open>Software gain\<close>

lemma sint_astype_int16:
  "- 32768 \<le> x \<Longrightarrow> x \<le> 32767 \<Longrightarrow> sint (astype_int16 x) = py_int x"
proof -
  assume lo: "- 32768 \<le> x" and hi: "x \<le> 32767"
  have "- 32768 \<le> py_int x \<and> py_int x \<le> 32767"
    using py_int_bounds [of "- 32768" x 32767] lo hi by simp
  then have "signed_take_bit 15 (py_int x) = py_int x"
    by (intro signed_take_bit_int_eq_self) simp_all
  then show ?thesis
    by (simp add: astype_int16_def sint_sbintrunc')
qed

lemma np_clip_range: "- 32768 \<le> np_clip x (- 32768) 32767 \<and> np_clip x (- 32768) 32767 \<le> 32767"
  by (simp add: np_clip_def)

text \<open>
  Claim C4, as the code has it. For every single-precision rounding, every gain
  multiplier and every frame, the output frame has the length of the input frame, and
  each output sample, read as a signed 16-bit value, is the single-precision product of
  the input sample and the multiplier, saturated into \<open>[-32768, 32767]\<close> and then
  truncated toward zero. No sample wraps around: a product at or below \<open>-32768\<close> gives
  \<open>-32768\<close>, a product at or above \<open>32767\<close> gives \<open>32767\<close>, and a product inside the
  range is passed with its fractional part dropped (so exactly when it is an integer).
\<close>

theorem software_gain_saturates:
  "length (apply_software_gain f32 xs g) = length xs \<and>
   (\<forall>i < length xs.
      let p = f32 (real_of_int (sint (xs ! i)) * f32 g);
          y = sint (apply_software_gain f32 xs g ! i)
      in y = py_int (np_clip p (- 32768) 32767)
         \<and> (p \<le> - 32768 \<longrightarrow> y = - 32768)
         \<and> (32767 \<le> p \<longrightarrow> y = 32767)
         \<and> (- 32768 \<le> p \<and> p \<le> 32767 \<longrightarrow> y = py_int p))"
proof -
  have len: "length (apply_software_gain f32 xs g) = length xs"
    by (simp add: apply_software_gain_def)
  have nth: "sint (apply_software_gain f32 xs g ! i)
      = py_int (np_clip (f32 (real_of_int (sint (xs ! i)) * f32 g)) (- 32768) 32767)"
    if "i < length xs" for i
    using that np_clip_range [of "f32 (real_of_int (sint (xs ! i)) * f32 g)"]
    by (simp add: apply_software_gain_def sint_astype_int16)
  have lo: "py_int (np_clip p (- 32768) 32767) = - 32768" if "p \<le> - 32768" for p
    using that by (simp add: np_clip_def py_int_def)
  have hi: "py_int (np_clip p (- 32768) 32767) = 32767" if "32767 \<le> p" for p
    using that by (simp add: np_clip_def py_int_def)
  have mid: "np_clip p (- 32768) 32767 = p" if "- 32768 \<le> p" "p \<le> 32767" for p
    using that by (simp add: np_clip_def)
  show ?thesis
    using len nth lo hi mid by (simp add: Let_def)
qed

text \<open>
  The theorem at the frame \<open>[3, 100, -20000, 7]\<close> with gain 2 and exact products: the
  third sample saturates, the others are doubled.
\<close>

theorem software_gain_saturates_witness:
  "map sint (apply_software_gain (\<lambda>x. x) [3, 100, - 20000, 7] 2) = [6, 200, - 32768, 14]"
proof -
  have "\<forall>i < length [3, 100, - 20000, 7 :: int16].
      sint (apply_software_gain (\<lambda>x. x) [3, 100, - 20000, 7] 2 ! i)
        = py_int (np_clip ((\<lambda>x. x) (real_of_int (sint ([3, 100, - 20000, 7 :: int16] ! i)) * (\<lambda>x. x) 2)) (- 32768) 32767)"
    using software_gain_saturates [of "\<lambda>x. x" "[3, 100, - 20000, 7]" 2]
    by (simp add: Let_def)
  then show ?thesis
    by (simp add: apply_software_gain_def np_clip_def astype_int16_def py_int_def)
qed

text \<open>
  Claim C4 as stated fails: the sample 3 with gain 0.5 has the scaled value 1.5, which
  lies in range and is a single-precision number, and the output sample is 1.
\<close>

theorem software_gain_truncates_counterexample:
  "sint (hd (apply_software_gain (\<lambda>x. x) [3] (1 / 2))) = 1 \<and>
   np_clip (real_of_int (sint (3 :: int16)) * (1 / 2)) (- 32768) 32767 = 3 / 2"
  by (simp add: apply_software_gain_def np_clip_def astype_int16_def py_int_def)

subsection \<open>Volume colour\<close>

text \<open>
  Claim C6. For volume samples \<open>0 \<le> v \<le> w \<le> 1\<close>, every channel of the interpolated
  colour lies between the base and the peak value of that channel, the green channel
  does not decrease and the red and blue channels do not increase from \<open>v\<close> to \<open>w\<close>, and
  the colours at 0 and 1 are the base and the peak colour.
\<close>

theorem volume_color_between_and_monotonic:
  assumes "0 \<le> v" and "v \<le> w" and "w \<le> 1"
  shows "red peak_color \<le> red (target_color v) \<and> red (target_color v) \<le> red base_color
       \<and> green base_color \<le> green (target_color v) \<and> green (target_color v) \<le> green peak_color
       \<and> blue peak_color \<le> blue (target_color v) \<and> blue (target_color v) \<le> blue base_color
       \<and> red (target_color w) \<le> red (target_color v)
       \<and> green (target_color v) \<le> green (target_color w)
       \<and> blue (target_color w) \<le> blue (target_color v)
       \<and> target_color 0 = base_color \<and> target_color 1 = peak_color"
proof -
  have v1: "v \<le> 1" using assms by simp
  have r: "red (target_color x) = py_int (99 - 4 * x)"
    and g: "green (target_color x) = py_int (155 + 50 * x)"
    and b: "blue (target_color x) = py_int (255 - 35 * x)" for x
    by (simp_all add: target_color_def base_color_def peak_color_def red_def green_def blue_def)
  have rb: "95 \<le> py_int (99 - 4 * v) \<and> py_int (99 - 4 * v) \<le> 99"
    using py_int_bounds [of 95 "99 - 4 * v" 99] assms(1) v1 by simp
  have gb: "155 \<le> py_int (155 + 50 * v) \<and> py_int (155 + 50 * v) \<le> 205"
    using py_int_bounds [of 155 "155 + 50 * v" 205] assms(1) v1 by simp
  have bb: "220 \<le> py_int (255 - 35 * v) \<and> py_int (255 - 35 * v) \<le> 255"
    using py_int_bounds [of 220 "255 - 35 * v" 255] assms(1) v1 by simp
  have rm: "py_int (99 - 4 * w) \<le> py_int (99 - 4 * v)"
    using assms(2) by (intro py_int_mono) simp
  have gm: "py_int (155 + 50 * v) \<le> py_int (155 + 50 * w)"
    using assms(2) by (intro py_int_mono) simp
  have bm: "py_int (255 - 35 * w) \<le> py_int (255 - 35 * v)"
    using assms(2) by (intro py_int_mono) simp
  have ends: "target_color 0 = base_color" "target_color 1 = peak_color"
    by (simp_all add: target_color_def base_color_def peak_color_def py_int_def)
  have vals: "red peak_color = 95" "red base_color = 99" "green base_color = 155"
    "green peak_color = 205" "blue peak_color = 220" "blue base_color = 255"
    by (simp_all add: base_color_def peak_color_def red_def green_def blue_def)
  show ?thesis
    using rb gb bb rm gm bm ends by (simp add: r g b vals)
qed

text \<open>The theorem at \<open>v = 0.25\<close> and \<open>w = 0.75\<close>, with the two colours computed.\<close>

theorem volume_color_between_and_monotonic_witness:
  "target_color (1 / 4) = (98, 167, 246) \<and> target_color (3 / 4) = (96, 192, 228)
   \<and> red (target_color (3 / 4)) \<le> red (target_color (1 / 4))
   \<and> green (target_color (1 / 4)) \<le> green (target_color (3 / 4))
   \<and> blue (target_color (3 / 4)) \<le> blue (target_color (1 / 4))"
proof -
  have "(0::real) \<le> 1 / 4" "(1::real) / 4 \<le> 3 / 4" "(3::real) / 4 \<le> 1" by simp_all
  from volume_color_between_and_monotonic [OF this]
  have "red (target_color (3 / 4)) \<le> red (target_color (1 / 4))
      \<and> green (target_color (1 / 4)) \<le> green (target_color (3 / 4))
      \<and> blue (target_color (3 / 4)) \<le> blue (target_color (1 / 4))" by simp
  moreover have "target_color (1 / 4) = (98, 167, 246) \<and> target_color (3 / 4) = (96, 192, 228)"
    by (simp add: target_color_def base_color_def peak_color_def py_int_def)
  ultimately show ?thesis by simp
qed

subsection \<open>State management helpers\<close>

lemmas state_ops = set_state_def set_voice_mode_def start_voice_thread_def
  stop_voice_system_def destroy_vosk_session_def post_def

lemma set_state_keeps_speaking:
  "is_speaking (set_state s st now) = is_speaking s
   \<and> speaking_phase (set_state s st now) = speaking_phase s
   \<and> return_to_listening_after_speak (set_state s st now) = return_to_listening_after_speak s"
  by (simp add: state_ops Let_def split: option.splits list.splits teardown_outcome.splits)

lemma set_state_current: "current_state (set_state s st now) = st"
  by (simp add: state_ops Let_def split: option.splits list.splits teardown_outcome.splits)

lemma set_state_speaking_threads:
  "threads (set_state s SPEAKING now) = threads s"
  by (simp add: state_ops Let_def)

subsection \<open>Wake-word cooldown\<close>

lemma trigger_keeps_cooldown:
  "wake_word_detected_time (trigger_wake_response s) = wake_word_detected_time s
   \<and> wake_word_cooldown (trigger_wake_response s) = wake_word_cooldown s
   \<and> config_wake_word (trigger_wake_response s) = config_wake_word s"
  by (simp add: trigger_wake_response_def post_def)

text \<open>
  Claim C1. A check made less than \<open>wake_word_cooldown\<close> after the last accepted
  detection returns false and leaves the whole state as it was, so no wake is triggered.
  A check that returns true was made at least \<open>wake_word_cooldown\<close> after the last
  accepted detection, and the state it returns already has \<open>wake_word_detected_time\<close> set
  to the time of the check. Hence a check at \<open>t2\<close>, less than the cooldown after an
  accepted check, is suppressed whatever its text.
\<close>

theorem wake_cooldown:
  "(current_time - wake_word_detected_time s < wake_word_cooldown s
      \<longrightarrow> check_wake_word s text current_time = (s, False))
   \<and> (snd (check_wake_word s text current_time)
      \<longrightarrow> wake_word_cooldown s \<le> current_time - wake_word_detected_time s
        \<and> wake_word_detected_time (fst (check_wake_word s text current_time)) = current_time
        \<and> wake_word_cooldown (fst (check_wake_word s text current_time)) = wake_word_cooldown s)
   \<and> (snd (check_wake_word s text current_time) \<and> t2 - current_time < wake_word_cooldown s
      \<longrightarrow> check_wake_word (fst (check_wake_word s text current_time)) text2 t2
          = (fst (check_wake_word s text current_time), False))"
  by (simp add: check_wake_word_def Let_def trigger_keeps_cooldown)

text \<open>
  The theorem on a freshly constructed object: \<open>hey beebo\<close> at time 10 is accepted and
  queues the power-on, \<open>beebo\<close> at time 11 is suppressed.
\<close>

theorem wake_cooldown_witness:
  "snd (check_wake_word (init_state 0 []) ''hey beebo'' 10)
   \<and> \<not> snd (check_wake_word (fst (check_wake_word (init_state 0 []) ''hey beebo'' 10)) ''beebo'' 11)
   \<and> current_state (fst (check_wake_word (init_state 0 []) ''hey beebo'' 10)) = SLEEPING
   \<and> after_queue (fst (check_wake_word (init_state 0 []) ''hey beebo'' 10)) = [(0, Cb_power_on)]"
proof -
  have acc: "snd (check_wake_word (init_state 0 []) ''hey beebo'' 10)"
    by (simp add: check_wake_word_def init_state_def Let_def py_lower_def lower_char_def)
  have "(11::real) - 10 < wake_word_cooldown (init_state 0 [])"
    by (simp add: init_state_def)
  with acc wake_cooldown [of 10 "init_state 0 []" "''hey beebo''" 11 "''beebo''"]
  have "\<not> snd (check_wake_word (fst (check_wake_word (init_state 0 []) ''hey beebo'' 10)) ''beebo'' 11)"
    by simp
  moreover have "current_state (fst (check_wake_word (init_state 0 []) ''hey beebo'' 10)) = SLEEPING
   \<and> after_queue (fst (check_wake_word (init_state 0 []) ''hey beebo'' 10)) = [(0, Cb_power_on)]"
    by (simp add: check_wake_word_def init_state_def Let_def py_lower_def lower_char_def
        trigger_wake_response_def post_def)
  ultimately show ?thesis using acc by simp
qed

subsection \<open>Audio-session teardown\<close>

text \<open>
  When no stream is open, or the teardown attempt meets no error, the stream reference
  and the recogniser are cleared, and a further call changes nothing.
\<close>

lemma teardown_clears_when_no_error:
  "(case audio_stream s of
      None \<Rightarrow> True
    | Some h \<Rightarrow> (case teardown h of [] \<Rightarrow> True | r # later \<Rightarrow> r = Closes))
   \<Longrightarrow> audio_stream (destroy_vosk_session s) = None
     \<and> vosk_rec (destroy_vosk_session s) = None
     \<and> destroy_vosk_session (destroy_vosk_session s) = destroy_vosk_session s"
  by (auto simp add: destroy_vosk_session_def
      split: option.splits list.splits teardown_outcome.splits)

text \<open>
  Claim C9 on a session whose \<open>stop_stream()\<close> raises at the first teardown attempt and
  not at the second. After the first call the state still holds the stream handle and
  the recogniser: the \<open>except\<close> clause has taken over before the two references are
  cleared. The second call is therefore not redundant: it stops and closes the stream
  and clears the references, so calling teardown twice does not give the state that
  calling it once gives.
\<close>

theorem teardown_leaves_handle_on_error:
  "audio_stream (destroy_vosk_session (open_session faulty_stream))
     = Some \<lparr>running = True, teardown = []\<rparr>
   \<and> vosk_rec (destroy_vosk_session (open_session faulty_stream)) = Some KaldiRecognizer
   \<and> audio_stream (destroy_vosk_session (destroy_vosk_session (open_session faulty_stream)))
       = None
   \<and> destroy_vosk_session (destroy_vosk_session (open_session faulty_stream))
       \<noteq> destroy_vosk_session (open_session faulty_stream)"
proof -
  have one: "audio_stream (destroy_vosk_session (open_session faulty_stream))
       = Some \<lparr>running = True, teardown = []\<rparr>
     \<and> vosk_rec (destroy_vosk_session (open_session faulty_stream)) = Some KaldiRecognizer"
    by (simp add: open_session_def faulty_stream_def destroy_vosk_session_def)
  have two: "audio_stream (destroy_vosk_session (destroy_vosk_session (open_session faulty_stream)))
       = None"
    by (simp add: open_session_def faulty_stream_def destroy_vosk_session_def)
  from one two have "destroy_vosk_session (destroy_vosk_session (open_session faulty_stream))
       \<noteq> destroy_vosk_session (open_session faulty_stream)"
    by (metis option.distinct(1))
  with one two show ?thesis by simp
qed

subsection \<open>One speaking sequence at a time\<close>

text \<open>
  Claim C10. While \<open>is_speaking\<close> is set, \<open>speak\<close> and \<open>speak_and_return_to_listening\<close>
  return the state unchanged: no field changes and no thread is started. After either
  call \<open>is_speaking\<close> is set, so a second call of either, with any text at any time,
  changes nothing.
\<close>

theorem speak_noop_while_speaking:
  "(is_speaking s \<longrightarrow> speak s text now = s \<and> speak_and_return_to_listening s text now = s)
   \<and> speak (speak s text now) text2 now2 = speak s text now
   \<and> speak_and_return_to_listening (speak s text now) text2 now2 = speak s text now
   \<and> speak (speak_and_return_to_listening s text now) text2 now2
       = speak_and_return_to_listening s text now
   \<and> speak_and_return_to_listening (speak_and_return_to_listening s text now) text2 now2
       = speak_and_return_to_listening s text now"
proof -
  have a: "is_speaking (speak s text now)"
    by (simp add: speak_def Let_def set_state_keeps_speaking)
  have b: "is_speaking (speak_and_return_to_listening s text now)"
    by (simp add: speak_and_return_to_listening_def Let_def set_state_keeps_speaking)
  have c: "is_speaking t \<Longrightarrow> speak t x n = t \<and> speak_and_return_to_listening t x n = t" for t x n
    by (simp add: speak_def speak_and_return_to_listening_def)
  show ?thesis using a b c by simp
qed

text \<open>
  The theorem on a freshly constructed object that has started to speak: a second request
  of either kind leaves that state as it is.
\<close>

theorem speak_noop_while_speaking_witness:
  "is_speaking (speak (init_state 0 []) ''hello'' 1)
   \<and> current_state (speak (init_state 0 []) ''hello'' 1) = SPEAKING
   \<and> threads (speak (init_state 0 []) ''hello'' 1) = [Speak_thread ''hello'']
   \<and> speak (speak (init_state 0 []) ''hello'' 1) ''again'' 2 = speak (init_state 0 []) ''hello'' 1
   \<and> speak_and_return_to_listening (speak (init_state 0 []) ''hello'' 1) ''again'' 2
       = speak (init_state 0 []) ''hello'' 1"
proof -
  have sp: "is_speaking (speak (init_state 0 []) ''hello'' 1)
   \<and> current_state (speak (init_state 0 []) ''hello'' 1) = SPEAKING
   \<and> threads (speak (init_state 0 []) ''hello'' 1) = [Speak_thread ''hello'']"
    by (simp add: speak_def init_state_def state_ops Let_def)
  with speak_noop_while_speaking [of "speak (init_state 0 []) ''hello'' 1" "''again''" 2]
  show ?thesis by simp
qed

subsection \<open>Failure of the response pipeline\<close>

lemma process_ai_keeps_speaking:
  "is_speaking (process_ai_background s text env) = is_speaking s
   \<and> threads (process_ai_background s text env) = threads s"
  by (simp add: process_ai_background_def add_to_context_def post_def Let_def
      split: api.splits)

text \<open>
  Claim C7, as the code has it. When an API key is configured and the chat completion
  raises, \<open>speak\<close> with the apology is queued, no bot entry is added, and the context
  memory is the one before the request with the user's entry appended (the message, or
  its summary when it has more than 20 words) and trimmed to \<open>max_context_history\<close>:
  the entry is added before the service is called and is not taken back. When the
  queued call runs with no speaking sequence active, it starts the speaking thread for
  the apology and the state becomes \<open>SPEAKING\<close>; when a speaking sequence is active, it
  changes nothing and the apology is not spoken. When no API key is configured the
  context memory is left as it was.
\<close>

theorem failed_reply_keeps_user_entry:
  "(api_key_of s \<noteq> [] \<and> chat_completion env = Api_raises \<longrightarrow>
      (let cleaned = py_strip text;
           u = (if length (py_split cleaned) > 20
                then summarize_message s cleaned (user_summary env) else cleaned);
           mem = context_memory s @ [\<lparr>timestamp = user_timestamp env, role = ''user'', content = u\<rparr>];
           s' = process_ai_background s text env
       in after_queue s' = after_queue s @ [(0, Cb_speak apology)]
          \<and> context_memory s' = (if length mem > max_context_history s then tl mem else mem)
          \<and> (\<not> is_speaking s \<longrightarrow>
                threads (speak s' apology now) = threads s @ [Speak_thread apology]
                \<and> is_speaking (speak s' apology now)
                \<and> current_state (speak s' apology now) = SPEAKING)
          \<and> (is_speaking s \<longrightarrow> speak s' apology now = s')))
   \<and> (api_key_of s = [] \<longrightarrow>
        context_memory (process_ai_background s text env) = context_memory s)"
proof -
  have ctx: "api_key_of s \<noteq> [] \<and> chat_completion env = Api_raises \<longrightarrow>
      (let cleaned = py_strip text;
           u = (if length (py_split cleaned) > 20
                then summarize_message s cleaned (user_summary env) else cleaned);
           mem = context_memory s @ [\<lparr>timestamp = user_timestamp env, role = ''user'', content = u\<rparr>];
           s' = process_ai_background s text env
       in after_queue s' = after_queue s @ [(0, Cb_speak apology)]
          \<and> context_memory s' = (if length mem > max_context_history s then tl mem else mem))"
    by (simp add: process_ai_background_def add_to_context_def post_def Let_def)
  have nokey: "api_key_of s = [] \<longrightarrow>
        context_memory (process_ai_background s text env) = context_memory s"
    by (simp add: process_ai_background_def post_def)
  have sp: "threads (speak t apology now) = threads t @ [Speak_thread apology]
      \<and> is_speaking (speak t apology now) \<and> current_state (speak t apology now) = SPEAKING"
    if "\<not> is_speaking t" for t
    using that
    by (simp add: speak_def Let_def set_state_keeps_speaking set_state_current
        set_state_speaking_threads)
  have quiet: "speak t apology now = t" if "is_speaking t" for t
    using that by (simp add: speak_def)
  from ctx nokey sp [of "process_ai_background s text env"]
    quiet [of "process_ai_background s text env"]
  show ?thesis
    by (simp add: Let_def process_ai_keeps_speaking)
qed

text \<open>
  The theorem on an object with a key and an empty context, for the request
  \<open>hello there\<close> and a service that raises: the apology is queued, and running the queued
  call at time 2 starts the speaking thread for it.
\<close>

theorem failed_reply_keeps_user_entry_witness:
  "after_queue (process_ai_background keyed_state ''hello there'' failing_replies)
     = [(0, Cb_speak apology)]
   \<and> context_memory (process_ai_background keyed_state ''hello there'' failing_replies)
     = [\<lparr>timestamp = ''12:00:00'', role = ''user'', content = ''hello there''\<rparr>]
   \<and> threads (speak (process_ai_background keyed_state ''hello there'' failing_replies) apology 2)
     = [Speak_thread apology]
   \<and> current_state
       (speak (process_ai_background keyed_state ''hello there'' failing_replies) apology 2)
     = SPEAKING"
proof -
  have k: "api_key_of keyed_state \<noteq> [] \<and> chat_completion failing_replies = Api_raises
      \<and> \<not> is_speaking keyed_state \<and> threads keyed_state = []"
    by (simp add: api_key_of_def keyed_state_def init_state_def failing_replies_def
        py_strip_def is_space_def)
  have w: "py_strip ''hello there'' = ''hello there''"
    by (simp add: py_strip_def is_space_def)
  have n: "length (py_split ''hello there'') = 2"
    by (simp add: py_split_def is_space_def)
  from k failed_reply_keeps_user_entry [of keyed_state failing_replies "''hello there''" 2]
  show ?thesis
    by (simp add: Let_def w n keyed_state_def init_state_def failing_replies_def)
qed

text \<open>
  Claim C7 as stated fails. The context is empty before the request and holds the user's
  entry after the failed exchange. And when the request is made while an earlier reply
  is still being spoken, the queued \<open>speak\<close> with the apology returns at once: no thread
  is started for it, so the apology is not heard.
\<close>

theorem failed_reply_context_counterexample:
  "context_memory keyed_state = []
   \<and> context_memory (process_ai_background keyed_state ''hello there'' failing_replies)
     = [\<lparr>timestamp = ''12:00:00'', role = ''user'', content = ''hello there''\<rparr>]
   \<and> after_queue (process_ai_background keyed_speaking_state ''hello there'' failing_replies)
     = [(0, Cb_speak apology)]
   \<and> threads (speak (process_ai_background keyed_speaking_state ''hello there'' failing_replies)
        apology 2)
     = [Speak_thread ''an earlier reply'']"
  by (simp add: process_ai_background_def add_to_context_def post_def Let_def
      api_key_of_def keyed_state_def keyed_speaking_state_def init_state_def failing_replies_def
      py_strip_def py_split_def is_space_def speak_def state_ops)

subsection \<open>Endpointing\<close>

lemma destroy_frame:
  "current_state (destroy_vosk_session s) = current_state s
   \<and> after_queue (destroy_vosk_session s) = after_queue s
   \<and> current_input_text (destroy_vosk_session s) = current_input_text s
   \<and> voice_mode (destroy_vosk_session s) = voice_mode s
   \<and> wake_word_active (destroy_vosk_session s) = wake_word_active s
   \<and> initial_timeout (destroy_vosk_session s) = initial_timeout s
   \<and> word_timeout (destroy_vosk_session s) = word_timeout s
   \<and> has_detected_speech (destroy_vosk_session s) = has_detected_speech s
   \<and> listening_start_time (destroy_vosk_session s) = listening_start_time s
   \<and> last_word_time (destroy_vosk_session s) = last_word_time s"
  by (simp add: destroy_vosk_session_def split: option.splits list.splits teardown_outcome.splits)

lemma silent_pass:
  "silent fr \<Longrightarrow> \<not> has_detected_speech s \<Longrightarrow>
   listen_pass s t fr =
     (if t - listening_start_time s > initial_timeout s
      then (post 0 (Cb_set_state STANDBY) s, True) else (s, False))"
  by (cases fr) (simp_all add: silent_def listen_pass_def check_speech_timeouts_def Let_def)

lemma silent_loop:
  "current_state s = LISTENING \<Longrightarrow> \<not> has_detected_speech s \<Longrightarrow>
   \<forall>p \<in> set pre. silent (snd p) \<and> fst p - listening_start_time s \<le> initial_timeout s \<Longrightarrow>
   silent fr \<Longrightarrow> t - listening_start_time s > initial_timeout s \<Longrightarrow>
   listen_loop s (pre @ (t, fr) # rest) = Some (post 0 (Cb_set_state STANDBY) s)"
proof (induction pre)
  case Nil
  then show ?case by (simp add: silent_pass)
next
  case (Cons p pre)
  from Cons.prems have "silent (snd p)" "\<not> fst p - listening_start_time s > initial_timeout s"
    by auto
  with Cons.prems have "listen_pass s (fst p) (snd p) = (s, False)"
    by (simp add: silent_pass)
  with Cons show ?case by simp
qed

lemma silent_loop_running:
  "current_state s = LISTENING \<Longrightarrow> \<not> has_detected_speech s \<Longrightarrow>
   \<forall>p \<in> set pre. silent (snd p) \<and> fst p - listening_start_time s \<le> initial_timeout s \<Longrightarrow>
   listen_loop s pre = None"
proof (induction pre)
  case Nil
  then show ?case by simp
next
  case (Cons p pre)
  from Cons.prems have "silent (snd p)" "\<not> fst p - listening_start_time s > initial_timeout s"
    by auto
  with Cons.prems have "listen_pass s (fst p) (snd p) = (s, False)"
    by (simp add: silent_pass)
  with Cons show ?case by simp
qed

lemma set_state_previous:
  "st \<noteq> current_state s \<Longrightarrow> previous_state (set_state s st now) = current_state s"
  by (simp add: state_ops Let_def split: option.splits list.splits teardown_outcome.splits)

text \<open>
  Claim C8. A listening session starts in state \<open>LISTENING\<close> with the microphone opened at
  \<open>t_start\<close>. Let every pass bring no speech, and let \<open>(t, fr)\<close> be the first pass whose
  clock reading has \<open>t - t_start > initial_timeout\<close>. Through the passes before it the
  loop keeps running: the voice thread's call has not returned after them, however many
  they are. At the pass \<open>(t, fr)\<close> the loop ends, whatever passes would follow: the call
  returns, the only callback it has queued is \<open>set_state("STANDBY")\<close>, no utterance is
  submitted, the state is still \<open>LISTENING\<close>, and running the queued callback moves the
  system from \<open>LISTENING\<close> to \<open>STANDBY\<close>.
\<close>

theorem no_speech_abandons:
  assumes "current_state s = LISTENING"
    and "\<forall>p \<in> set pre. silent (snd p) \<and> fst p - t_start \<le> initial_timeout s"
    and "silent fr" and "t - t_start > initial_timeout s"
    and "(0, Cb_process_voice_input) \<notin> set (after_queue s)"
  shows "voice_thread_listening s (Opened h) t_start t_word pre = None
     \<and> (\<exists>s'. voice_thread_listening s (Opened h) t_start t_word (pre @ (t, fr) # rest) = Some s'
         \<and> after_queue s' = after_queue s @ [(0, Cb_set_state STANDBY)]
         \<and> submitted_utterance s' = None
         \<and> current_state s' = LISTENING
         \<and> current_state (set_state s' STANDBY now) = STANDBY
         \<and> previous_state (set_state s' STANDBY now) = LISTENING)"
proof -
  obtain s1 where s1: "create_fresh_vosk_session s (Opened h) = (s1, True)"
    and s1_state: "current_state s1 = LISTENING" and s1_init: "initial_timeout s1 = initial_timeout s"
    and s1_q: "after_queue s1 = after_queue s"
    using assms(1) by (simp add: create_fresh_vosk_session_def Let_def destroy_frame)
  define s2 where "s2 = s1\<lparr>current_input_text := [], has_detected_speech := False,
                       listening_start_time := t_start, last_word_time := t_word\<rparr>"
  have running: "listen_loop s2 pre = None"
    using assms(2) s1_state s1_init by (intro silent_loop_running) (simp_all add: s2_def)
  have before: "voice_thread_listening s (Opened h) t_start t_word pre = None"
    using assms(1) s1 running
    by (simp add: voice_thread_listening_def handle_speech_recognition_def s2_def [symmetric])
  have loop: "listen_loop s2 (pre @ (t, fr) # rest) = Some (post 0 (Cb_set_state STANDBY) s2)"
    using assms(2,3,4) s1_state s1_init by (intro silent_loop) (simp_all add: s2_def)
  define s' where "s' = (destroy_vosk_session (post 0 (Cb_set_state STANDBY) s2))\<lparr>voice_mode := Voice_wake_word\<rparr>"
  have run: "voice_thread_listening s (Opened h) t_start t_word (pre @ (t, fr) # rest) = Some s'"
    using assms(1) s1 loop
    by (simp add: voice_thread_listening_def handle_speech_recognition_def s2_def [symmetric] s'_def)
  have q: "after_queue s' = after_queue s @ [(0, Cb_set_state STANDBY)]"
    by (simp add: s'_def destroy_frame post_def s2_def s1_q)
  have st: "current_state s' = LISTENING"
    by (simp add: s'_def destroy_frame post_def s2_def s1_state)
  have su: "submitted_utterance s' = None"
    using assms(5) by (simp add: submitted_utterance_def q)
  have pr: "previous_state (set_state s' STANDBY now) = LISTENING"
    using st set_state_previous [of STANDBY s' now] by simp
  from before run q st su pr show ?thesis by (simp add: set_state_current)
qed

lemma listening_state_eval:
  "current_state listening_state = LISTENING \<and> initial_timeout listening_state = 5
   \<and> after_queue listening_state = []"
  by (simp add: listening_state_def standby_state_def start_manual_listening_def
      on_wake_animation_complete_def power_on_def init_state_def state_ops Let_def)

text \<open>
  The theorem on the manual listening session that starts at time 3 with the default
  timeout of 5 seconds: after the silent passes at 4, 7 and 8 (exactly 5 seconds after
  the start) the call has not returned, the pass at 8.5 ends the loop, and the pass that
  would bring \<open>hello\<close> at 9 is never read.
\<close>

theorem no_speech_abandons_witness:
  "voice_thread_listening listening_state (Opened good_stream) 3 3
     [(4, Partial_result []), (7, Read_error), (8, Final_result [])] = None
   \<and> (\<exists>s'. voice_thread_listening listening_state (Opened good_stream) 3 3
           ([(4, Partial_result []), (7, Read_error), (8, Final_result [])]
              @ (17 / 2, Partial_result '' '') # [(9, Partial_result ''hello'')]) = Some s'
     \<and> after_queue s' = [(0, Cb_set_state STANDBY)]
     \<and> submitted_utterance s' = None
     \<and> current_state s' = LISTENING
     \<and> current_state (set_state s' STANDBY 9) = STANDBY
     \<and> previous_state (set_state s' STANDBY 9) = LISTENING)"
proof -
  have a: "\<forall>p \<in> set [(4::real, Partial_result []), (7, Read_error), (8, Final_result [])].
      silent (snd p) \<and> fst p - 3 \<le> initial_timeout listening_state"
    by (simp add: listening_state_eval silent_def py_strip_def)
  have b: "silent (Partial_result '' '')"
    by (simp add: silent_def py_strip_def is_space_def)
  have c: "(17::real) / 2 - 3 > initial_timeout listening_state"
    by (simp add: listening_state_eval)
  have d: "(0, Cb_process_voice_input) \<notin> set (after_queue listening_state)"
    by (simp add: listening_state_eval)
  from no_speech_abandons [OF _ a b c d, of good_stream 3 "[(9, Partial_result ''hello'')]" 9]
  show ?thesis by (simp add: listening_state_eval)
qed

lemma quiet_pass:
  "has_detected_speech s \<Longrightarrow> no_new_word s fr \<Longrightarrow>
   listen_pass s t fr = check_speech_timeouts s t"
  by (cases fr) (simp_all add: no_new_word_def listen_pass_def process_partial_speech_def Let_def)

lemma quiet_loop_running:
  "current_state s = LISTENING \<Longrightarrow> has_detected_speech s \<Longrightarrow>
   \<forall>p \<in> set pre. no_new_word s (snd p) \<and> fst p - last_word_time s \<le> word_timeout s \<Longrightarrow>
   listen_loop s pre = None"
proof (induction pre)
  case Nil
  then show ?case by simp
next
  case (Cons p pre)
  from Cons.prems have "no_new_word s (snd p)" "\<not> fst p - last_word_time s > word_timeout s"
    by auto
  with Cons.prems have "listen_pass s (fst p) (snd p) = (s, False)"
    by (simp add: quiet_pass check_speech_timeouts_def)
  with Cons show ?case by simp
qed

lemma quiet_loop_submits:
  "current_state s = LISTENING \<Longrightarrow> has_detected_speech s \<Longrightarrow>
   py_strip (current_input_text s) \<noteq> [] \<Longrightarrow>
   \<forall>p \<in> set pre. no_new_word s (snd p) \<and> fst p - last_word_time s \<le> word_timeout s \<Longrightarrow>
   no_new_word s fr \<Longrightarrow> t - last_word_time s > word_timeout s \<Longrightarrow>
   listen_loop s (pre @ (t, fr) # rest)
     = Some (post 0 Cb_process_voice_input (post 0 (Cb_set_state PROCESSING) s))"
proof (induction pre)
  case Nil
  then show ?case by (simp add: quiet_pass check_speech_timeouts_def)
next
  case (Cons p pre)
  from Cons.prems have "no_new_word s (snd p)" "\<not> fst p - last_word_time s > word_timeout s"
    by auto
  with Cons.prems have "listen_pass s (fst p) (snd p) = (s, False)"
    by (simp add: quiet_pass check_speech_timeouts_def)
  with Cons show ?case by simp
qed

text \<open>
  Claim C3, as the code has it. A non-empty partial transcript marks speech as detected;
  the accumulated text and \<open>last_word_time\<close> are replaced by the partial and the time of
  the pass exactly when the partial has strictly more words than the accumulated text,
  and are left as they were when it has as many or fewer words, whatever its length.
  Once speech is detected and text is accumulated, the loop keeps running through passes
  that bring no new word while no more than \<open>word_timeout\<close> has passed since
  \<open>last_word_time\<close>; at the first such pass later than that it ends, with
  \<open>set_state("PROCESSING")\<close> and the submission of the accumulated text queued. Scenario
  B: in a session started at 3.0, the partials \<open>turn\<close>, \<open>turn on\<close>, \<open>turn on the\<close> at 3.8,
  4.6 and 5.4, followed by passes without a new word at 6.0 and 6.5 (word timeout 1
  second), end the session at 6.5 with the submission of \<open>turn on the\<close> queued, and not
  before.
\<close>

theorem partial_updates_on_more_words:
  "(partial_text \<noteq> [] \<longrightarrow>
      (let s' = process_partial_speech s partial_text t in
         has_detected_speech s'
         \<and> (length (py_split partial_text) > length (py_split (current_input_text s))
              \<longrightarrow> current_input_text s' = partial_text \<and> last_word_time s' = t)
         \<and> (length (py_split partial_text) \<le> length (py_split (current_input_text s))
              \<longrightarrow> current_input_text s' = current_input_text s
                \<and> last_word_time s' = last_word_time s)))
   \<and> (current_state s = LISTENING \<and> has_detected_speech s
        \<and> py_strip (current_input_text s) \<noteq> []
        \<and> (\<forall>p \<in> set pre. no_new_word s (snd p) \<and> fst p - last_word_time s \<le> word_timeout s)
        \<and> no_new_word s fr \<and> t - last_word_time s > word_timeout s
      \<longrightarrow> listen_loop s pre = None
        \<and> (\<exists>s'. listen_loop s (pre @ (t, fr) # rest) = Some s'
             \<and> submitted_utterance s' = Some (current_input_text s)
             \<and> after_queue s'
                 = after_queue s @ [(0, Cb_set_state PROCESSING), (0, Cb_process_voice_input)]))
   \<and> handle_speech_recognition listening_state (Opened good_stream) 3 3
        [(19 / 5, Partial_result ''turn''), (23 / 5, Partial_result ''turn on''),
         (27 / 5, Partial_result ''turn on the''), (6, Partial_result ''turn on the'')]
       = None
   \<and> map_option (\<lambda>s'. (submitted_utterance s', after_queue s'))
       (handle_speech_recognition listening_state (Opened good_stream) 3 3
          [(19 / 5, Partial_result ''turn''), (23 / 5, Partial_result ''turn on''),
           (27 / 5, Partial_result ''turn on the''), (6, Partial_result ''turn on the''),
           (13 / 2, Partial_result [])])
     = Some (Some ''turn on the'', [(0, Cb_set_state PROCESSING), (0, Cb_process_voice_input)])"
proof -
  have gen: "partial_text \<noteq> [] \<longrightarrow>
      (let s' = process_partial_speech s partial_text t in
         has_detected_speech s'
         \<and> (length (py_split partial_text) > length (py_split (current_input_text s))
              \<longrightarrow> current_input_text s' = partial_text \<and> last_word_time s' = t)
         \<and> (length (py_split partial_text) \<le> length (py_split (current_input_text s))
              \<longrightarrow> current_input_text s' = current_input_text s
                \<and> last_word_time s' = last_word_time s))"
    by (simp add: process_partial_speech_def Let_def)
  have quiet: "listen_loop s pre = None
        \<and> (\<exists>s'. listen_loop s (pre @ (t, fr) # rest) = Some s'
             \<and> submitted_utterance s' = Some (current_input_text s)
             \<and> after_queue s'
                 = after_queue s @ [(0, Cb_set_state PROCESSING), (0, Cb_process_voice_input)])"
    if h: "current_state s = LISTENING" "has_detected_speech s"
      "py_strip (current_input_text s) \<noteq> []"
      "\<forall>p \<in> set pre. no_new_word s (snd p) \<and> fst p - last_word_time s \<le> word_timeout s"
      "no_new_word s fr" "t - last_word_time s > word_timeout s"
  proof -
    have "listen_loop s pre = None"
      using h(1,2,4) by (rule quiet_loop_running)
    moreover have "listen_loop s (pre @ (t, fr) # rest)
        = Some (post 0 Cb_process_voice_input (post 0 (Cb_set_state PROCESSING) s))"
      using h by (rule quiet_loop_submits)
    ultimately show ?thesis
      by (simp add: submitted_utterance_def post_def)
  qed
  have w: "py_split ''turn'' = [''turn'']" "py_split ''turn on'' = [''turn'', ''on'']"
      "py_split ''turn on the'' = [''turn'', ''on'', ''the'']" "py_split [] = []"
    by (simp_all add: py_split_def is_space_def)
  have st: "py_strip ''turn'' = ''turn''" "py_strip ''turn on'' = ''turn on''"
      "py_strip ''turn on the'' = ''turn on the''" "py_strip [] = []"
    by (simp_all add: py_strip_def is_space_def)
  have scen0: "handle_speech_recognition listening_state (Opened good_stream) 3 3
        [(19 / 5, Partial_result ''turn''), (23 / 5, Partial_result ''turn on''),
         (27 / 5, Partial_result ''turn on the''), (6, Partial_result ''turn on the'')]
       = None"
    by (simp add: handle_speech_recognition_def create_fresh_vosk_session_def
        listening_state_def standby_state_def start_manual_listening_def
        on_wake_animation_complete_def power_on_def init_state_def state_ops Let_def
        listen_pass_def process_partial_speech_def check_speech_timeouts_def
        good_stream_def w st)
  have scen: "map_option (\<lambda>s'. (submitted_utterance s', after_queue s'))
       (handle_speech_recognition listening_state (Opened good_stream) 3 3
          [(19 / 5, Partial_result ''turn''), (23 / 5, Partial_result ''turn on''),
           (27 / 5, Partial_result ''turn on the''), (6, Partial_result ''turn on the''),
           (13 / 2, Partial_result [])])
     = Some (Some ''turn on the'', [(0, Cb_set_state PROCESSING), (0, Cb_process_voice_input)])"
    by (simp add: handle_speech_recognition_def create_fresh_vosk_session_def
        listening_state_def standby_state_def start_manual_listening_def
        on_wake_animation_complete_def power_on_def init_state_def state_ops Let_def
        listen_pass_def process_partial_speech_def check_speech_timeouts_def
        submitted_utterance_def good_stream_def w st)
  from gen quiet scen0 scen show ?thesis by blast
qed

text \<open>
  The theorem for the first partial \<open>turn\<close> of a session, at time 4, and for the session
  that has accumulated \<open>turn on the\<close> by time 5.4: a pass without a new word at 6 leaves
  the loop running, and the empty partial at 6.5 ends it with \<open>turn on the\<close> submitted.
\<close>

theorem partial_updates_on_more_words_witness:
  "current_input_text (process_partial_speech listening_state ''turn'' 4) = ''turn''
   \<and> last_word_time (process_partial_speech listening_state ''turn'' 4) = 4
   \<and> has_detected_speech (process_partial_speech listening_state ''turn'' 4)
   \<and> listen_loop (listening_state\<lparr>has_detected_speech := True,
          current_input_text := ''turn on the'', last_word_time := 27 / 5\<rparr>)
        [(6, Partial_result ''turn on the'')] = None
   \<and> (\<exists>s'. listen_loop (listening_state\<lparr>has_detected_speech := True,
            current_input_text := ''turn on the'', last_word_time := 27 / 5\<rparr>)
          ([(6, Partial_result ''turn on the'')] @ (13 / 2, Partial_result []) # []) = Some s'
        \<and> submitted_utterance s' = Some ''turn on the''
        \<and> after_queue s' = [(0, Cb_set_state PROCESSING), (0, Cb_process_voice_input)])"
proof -
  define s where "s = listening_state\<lparr>has_detected_speech := True,
          current_input_text := ''turn on the'', last_word_time := 27 / 5\<rparr>"
  have w: "py_split ''turn on the'' = [''turn'', ''on'', ''the'']" "py_split [] = []"
    by (simp_all add: py_split_def is_space_def)
  have st: "py_strip ''turn on the'' = ''turn on the''" "py_strip [] = []"
    by (simp_all add: py_strip_def is_space_def)
  have ev: "current_state s = LISTENING" "has_detected_speech s"
      "current_input_text s = ''turn on the''" "last_word_time s = 27 / 5"
      "word_timeout s = 1" "after_queue s = []"
    by (simp_all add: s_def listening_state_def standby_state_def start_manual_listening_def
      on_wake_animation_complete_def power_on_def init_state_def state_ops Let_def)
  have h: "current_state s = LISTENING \<and> has_detected_speech s
        \<and> py_strip (current_input_text s) \<noteq> []
        \<and> (\<forall>p \<in> set [(6::real, Partial_result ''turn on the'')].
              no_new_word s (snd p) \<and> fst p - last_word_time s \<le> word_timeout s)
        \<and> no_new_word s (Partial_result []) \<and> 13 / 2 - last_word_time s > word_timeout s"
    by (simp add: ev no_new_word_def w st)
  have "length (py_split ''turn'') > length (py_split (current_input_text listening_state))"
    by (simp add: py_split_def is_space_def listening_state_def standby_state_def start_manual_listening_def
      on_wake_animation_complete_def power_on_def init_state_def state_ops Let_def)
  with partial_updates_on_more_words [of "''turn''" listening_state 4]
  have first: "current_input_text (process_partial_speech listening_state ''turn'' 4) = ''turn''
   \<and> last_word_time (process_partial_speech listening_state ''turn'' 4) = 4
   \<and> has_detected_speech (process_partial_speech listening_state ''turn'' 4)"
    by (simp add: Let_def)
  from h partial_updates_on_more_words
    [where s = s and pre = "[(6, Partial_result ''turn on the'')]"
       and fr = "Partial_result []" and t = "13 / 2" and rest = "[]"]
  have "listen_loop s [(6, Partial_result ''turn on the'')] = None
   \<and> (\<exists>s'. listen_loop s ([(6, Partial_result ''turn on the'')] @ (13 / 2, Partial_result []) # [])
            = Some s'
        \<and> submitted_utterance s' = Some ''turn on the''
        \<and> after_queue s' = [(0, Cb_set_state PROCESSING), (0, Cb_process_voice_input)])"
    by (simp add: ev)
  with first show ?thesis unfolding s_def by simp
qed

text \<open>
  Claim C3 as stated fails: \<open>turning on\<close> has as many words as the accumulated \<open>turn on\<close>
  and is longer, and the accumulated text stays \<open>turn on\<close>.
\<close>

theorem partial_tie_break_counterexample:
  "length (py_split ''turning on'') = length (py_split ''turn on'')
   \<and> length ''turn on'' < length ''turning on''
   \<and> current_input_text
       (process_partial_speech (listening_state\<lparr>current_input_text := ''turn on''\<rparr>) ''turning on'' 4)
     = ''turn on''"
  by (simp add: process_partial_speech_def Let_def py_split_def is_space_def)

subsection \<open>System state and voice mode\<close>

text \<open>
  Claim C2, as the code has it. The relation \<open>voice_inv\<close> (voice mode off in
  \<open>PROCESSING\<close> and \<open>SPEAKING\<close>; listening exactly in \<open>LISTENING\<close>; wake-word mode only in
  \<open>SLEEPING\<close> or \<open>STANDBY\<close> with detection enabled) holds after \<open>set_state\<close> to a state
  other than the current one when the new state is \<open>SLEEPING\<close>, \<open>LISTENING\<close>,
  \<open>PROCESSING\<close> or \<open>SPEAKING\<close>, or \<open>STANDBY\<close> with detection enabled. \<open>set_state\<close> to
  \<open>WAKING_UP\<close> or \<open>ERROR\<close>, or to \<open>STANDBY\<close> with detection disabled, leaves the voice mode
  as it was. The direct wake-trigger path keeps the relation and establishes it from
  \<open>STANDBY\<close>, and the completion of the wake animation with a deferred listen
  establishes it. \<open>toggle_wake_word\<close>, \<open>start_manual_listening\<close>, \<open>speak\<close> and
  \<open>speak_and_return_to_listening\<close> keep the relation, and \<open>stop_voice_system\<close>
  establishes it in every state but \<open>LISTENING\<close>.
\<close>

theorem set_state_voice_mode:
  "(new_state \<noteq> current_state s
      \<and> (new_state \<in> {SLEEPING, LISTENING, PROCESSING, SPEAKING}
          \<or> (new_state = STANDBY \<and> wake_word_active s))
      \<longrightarrow> voice_inv (set_state s new_state now))
   \<and> (new_state \<in> {WAKING_UP, ERROR} \<or> (new_state = STANDBY \<and> \<not> wake_word_active s)
      \<longrightarrow> voice_mode (set_state s new_state now) = voice_mode s)
   \<and> (voice_inv s \<or> current_state s = STANDBY \<longrightarrow> voice_inv (trigger_wake_response s))
   \<and> (should_listen_after_wake s \<longrightarrow> voice_inv (on_wake_animation_complete s now))
   \<and> (voice_inv s \<longrightarrow> voice_inv (toggle_wake_word s var))
   \<and> (voice_inv s \<longrightarrow> voice_inv (start_manual_listening s now))
   \<and> (voice_inv s \<longrightarrow> voice_inv (speak s text now)
        \<and> voice_inv (speak_and_return_to_listening s text now))
   \<and> (current_state s \<noteq> LISTENING \<longrightarrow> voice_inv (stop_voice_system s))"
proof -
  have a: "voice_inv (set_state s new_state now)"
    if "new_state \<noteq> current_state s"
      and "new_state \<in> {SLEEPING, LISTENING, PROCESSING, SPEAKING}
          \<or> (new_state = STANDBY \<and> wake_word_active s)"
    for s new_state
    using that
    by (cases new_state)
      (auto simp add: voice_inv_def state_ops Let_def
        split: option.splits list.splits teardown_outcome.splits)
  have b: "voice_mode (set_state s new_state now) = voice_mode s"
    if "new_state \<in> {WAKING_UP, ERROR} \<or> (new_state = STANDBY \<and> \<not> wake_word_active s)"
    using that by (cases new_state) (auto simp add: state_ops Let_def)
  have c: "voice_inv (trigger_wake_response s)" if "voice_inv s \<or> current_state s = STANDBY"
    using that by (auto simp add: voice_inv_def trigger_wake_response_def post_def)
  have d: "voice_inv (on_wake_animation_complete s now)" if "should_listen_after_wake s"
    using that by (simp add: voice_inv_def on_wake_animation_complete_def post_def)
  have e: "voice_inv (toggle_wake_word s var)" if "voice_inv s"
    using that
    by (auto simp add: voice_inv_def toggle_wake_word_def state_ops Let_def
        split: option.splits list.splits teardown_outcome.splits)
  have f: "voice_inv (start_manual_listening s now)" if "voice_inv s"
  proof (cases "current_state s = LISTENING")
    case True
    with that show ?thesis by (simp add: start_manual_listening_def set_state_def)
  next
    case False
    with that a [of LISTENING s] show ?thesis by (simp add: start_manual_listening_def)
  qed
  have g: "voice_inv (speak s text now) \<and> voice_inv (speak_and_return_to_listening s text now)"
    if "voice_inv s"
  proof (cases "is_speaking s")
    case True
    with that show ?thesis by (simp add: speak_def speak_and_return_to_listening_def)
  next
    case ns: False
    show ?thesis
    proof (cases "current_state s = SPEAKING")
      case True
      with that ns show ?thesis
        by (simp add: speak_def speak_and_return_to_listening_def set_state_def voice_inv_def)
    next
      case False
      have "voice_inv (set_state (s\<lparr>is_speaking := True,
            speaking_phase := Some Transition_to_speak,
            return_to_listening_after_speak := r\<rparr>) SPEAKING now)" for r
        using False by (intro a) simp_all
      then have "voice_inv ((set_state (s\<lparr>is_speaking := True,
            speaking_phase := Some Transition_to_speak,
            return_to_listening_after_speak := r\<rparr>) SPEAKING now)\<lparr>threads := th\<rparr>)" for r th
        by (simp add: voice_inv_def)
      with ns show ?thesis
        by (simp add: speak_def speak_and_return_to_listening_def Let_def)
    qed
  qed
  have h: "voice_inv (stop_voice_system s)" if "current_state s \<noteq> LISTENING"
    using that
    by (auto simp add: voice_inv_def state_ops
        split: option.splits list.splits teardown_outcome.splits)
  from a [of new_state s] b c d e f g h show ?thesis by blast
qed

lemma wake_enabled_eval:
  "current_state (toggle_wake_word (init_state 0 []) True) = SLEEPING
   \<and> voice_mode (toggle_wake_word (init_state 0 []) True) = Voice_wake_word
   \<and> wake_word_active (toggle_wake_word (init_state 0 []) True)"
  by (simp add: toggle_wake_word_def init_state_def state_ops Let_def)

text \<open>
  The theorem on a freshly constructed object with wake-word detection switched on, and
  on the stand-by state of an object with detection off.
\<close>

theorem set_state_voice_mode_witness:
  "voice_inv (set_state (toggle_wake_word (init_state 0 []) True) LISTENING 1)
   \<and> voice_mode (set_state (toggle_wake_word (init_state 0 []) True) WAKING_UP 1) = Voice_wake_word
   \<and> voice_inv (trigger_wake_response standby_state)
   \<and> current_state (trigger_wake_response standby_state) = LISTENING"
proof -
  have st: "current_state standby_state = STANDBY"
    by (simp add: standby_state_def on_wake_animation_complete_def power_on_def init_state_def
        state_ops Let_def)
  have "current_state (trigger_wake_response standby_state) = LISTENING"
    using st by (simp add: trigger_wake_response_def post_def)
  with st wake_enabled_eval
    set_state_voice_mode [of LISTENING "toggle_wake_word (init_state 0 []) True" 1]
    set_state_voice_mode [of WAKING_UP "toggle_wake_word (init_state 0 []) True" 1]
    set_state_voice_mode [of LISTENING standby_state 1]
  show ?thesis by simp
qed

text \<open>
  Claim C2 as stated fails. With detection enabled the relation holds while sleeping and
  fails after \<open>power_on\<close>: the state is \<open>WAKING_UP\<close> and the mode is still wake-word mode.
  With detection disabled it holds in a manual listening session and fails after the
  voice thread's reset at the end of the session (state \<open>LISTENING\<close>, wake-word mode), and
  still fails once the queued \<open>set_state("STANDBY")\<close> has run (wake-word mode with
  detection disabled).
\<close>

theorem voice_inv_broken_counterexample:
  "voice_inv (toggle_wake_word (init_state 0 []) True)
   \<and> \<not> voice_inv (power_on (toggle_wake_word (init_state 0 []) True) 1)
   \<and> voice_inv listening_state
   \<and> (case voice_thread_listening listening_state (Opened good_stream) 3 3 [(9, Read_error)] of
        None \<Rightarrow> False
      | Some s' \<Rightarrow> \<not> voice_inv s' \<and> \<not> voice_inv (set_state s' STANDBY 9))"
  by (simp add: voice_inv_def toggle_wake_word_def power_on_def init_state_def state_ops Let_def
      listening_state_def standby_state_def start_manual_listening_def
      on_wake_animation_complete_def voice_thread_listening_def handle_speech_recognition_def
      create_fresh_vosk_session_def good_stream_def listen_pass_def check_speech_timeouts_def)

subsection \<open>Playback synchronisation\<close>












end
